theory Spec2Isabelle
  imports Complex_Main "HOL-Library.AList"
begin

section \<open>Errors, dictionaries and tensors\<close>

text \<open>
  The orchestrator of \<^verbatim>\<open>frcnn/network.py\<close> is embedded as pure functions. Every
  \<^verbatim>\<open>raise\<close>, failed key lookup or shape mismatch of the source is a value \<open>Inl e\<close>
  of the result type; a normal return is \<open>Inr v\<close>.
\<close>

datatype error =
    ValueError string
  | KeyError string
  | AttributeError string
  | InvalidArgumentError
  | CollaboratorError string

type_synonym 'a result = "error + 'a"

text \<open>
  A Python \<^verbatim>\<open>dict\<close> with string keys is an association list in insertion order.
  \<^verbatim>\<open>d[k]\<close> raises \<^verbatim>\<open>KeyError\<close> on a missing key; \<^verbatim>\<open>d[k] = v\<close> overwrites in place
  or appends.
\<close>

type_synonym 'v dict = "(string \<times> 'v) list"

definition getitem :: "'v dict \<Rightarrow> string \<Rightarrow> 'v result" where
  "getitem d k = (case map_of d k of None \<Rightarrow> Inl (KeyError k) | Some v \<Rightarrow> Inr v)"

definition setitem :: "'v dict \<Rightarrow> string \<Rightarrow> 'v \<Rightarrow> 'v dict" where
  "setitem d k v = AList.update k v d"

definition keys :: "'v dict \<Rightarrow> string set" where
  "keys d = fst ` set d"

text \<open>
  An opaque float tensor (image, feature map, ground-truth boxes, proposals) is its
  shape together with its flat contents. The integer tensors of rank 1, 2 and 3 that the
  anchor computation builds are nested lists in row-major order. Their entries are
  mathematical integers: the pixel coordinates of an anchor grid stay far inside the
  32-bit range of the runtime, which is not modelled. Loss values are real numbers.
\<close>

datatype tensor = Tensor (tshape: "nat list") (tdata: "real list")

datatype pval =
    TensorV tensor
  | ShapeV "nat list"
  | AnchorsV "int list list"
  | LossesV "(string \<times> real) list"
  | DictV "(string \<times> pval) list"

subsection \<open>The tensor operations used by the anchor grid\<close>

text \<open>\<^verbatim>\<open>tf.range(n)\<close> and multiplication of a rank-1 tensor by a scalar.\<close>

definition tf_range :: "nat \<Rightarrow> int list" where
  "tf_range n = map int [0..<n]"

definition times_scalar :: "int list \<Rightarrow> int \<Rightarrow> int list" where
  "times_scalar xs c = map (\<lambda>x. x * c) xs"

text \<open>
  Modelled from the spec: \<^verbatim>\<open>meshgrid\<close> of \<^verbatim>\<open>utils/ops.py\<close> is not part of the sources
  at hand. The spec places the grid points at
  \<open>(0, S, ..., (W-1)S) \<times> (0, S, ..., (H-1)S)\<close>, one per cell of the \<open>H \<times> W\<close> feature
  map, and the source comments that the stacked shifts form an \<open>(H x W, 4)\<close> tensor. So
  \<^verbatim>\<open>meshgrid(x, y)\<close> returns two tensors of shape \<open>(len y, len x)\<close>: in the first every
  row is \<open>x\<close>, in the second row \<open>i\<close> repeats \<open>y[i]\<close>.
\<close>

definition meshgrid :: "int list \<Rightarrow> int list \<Rightarrow> int list list \<times> int list list" where
  "meshgrid x y = (map (\<lambda>_. x) y, map (\<lambda>v. map (\<lambda>_. v) x) y)"

text \<open>\<^verbatim>\<open>tf.reshape(t, [-1])\<close> of a rank-2 tensor: its rows one after the other.\<close>

definition reshape_flat :: "int list list \<Rightarrow> int list" where
  "reshape_flat t = concat t"

text \<open>\<^verbatim>\<open>tf.stack(ts, axis=0)\<close> makes the given tensors the rows of a new one.\<close>

definition tf_stack :: "'a list \<Rightarrow> 'a list" where
  "tf_stack ts = ts"

text \<open>
  \<^verbatim>\<open>tf.transpose\<close> of a rank-2 tensor, and \<^verbatim>\<open>tf.transpose(t, (1, 0, 2))\<close> of a rank-3
  tensor: both exchange the two outer axes.
\<close>

definition tf_transpose :: "'a list list \<Rightarrow> 'a list list" where
  "tf_transpose t = transpose t"

text \<open>
  \<^verbatim>\<open>reshape\<close> to a rank-2 shape \<open>(n, k)\<close> from the flat contents; the element count has
  to agree.
\<close>

definition reshape2 :: "nat \<Rightarrow> nat \<Rightarrow> 'a list \<Rightarrow> 'a list list result" where
  "reshape2 n k flat =
     (if length flat = n * k
      then Inr (map (\<lambda>i. take k (drop (i * k) flat)) [0..<n])
      else Inl InvalidArgumentError)"

text \<open>
  Broadcasting addition. Along each axis the two extents have to be equal, or one of
  them is 1 and that operand is repeated; anything else is a shape error.
\<close>

fun collect :: "'a result list \<Rightarrow> 'a list result" where
  "collect [] = Inr []"
| "collect (r # rs) =
     (case r of
        Inl e \<Rightarrow> Inl e
      | Inr x \<Rightarrow> (case collect rs of Inl e \<Rightarrow> Inl e | Inr xs \<Rightarrow> Inr (x # xs)))"

definition broadcast :: "('a \<Rightarrow> 'b \<Rightarrow> 'c result) \<Rightarrow> 'a list \<Rightarrow> 'b list \<Rightarrow> 'c list result" where
  "broadcast f xs ys =
     (if length xs = length ys then collect (map (\<lambda>(x, y). f x y) (zip xs ys))
      else if length xs = 1 then collect (map (f (hd xs)) ys)
      else if length ys = 1 then collect (map (\<lambda>x. f x (hd ys)) xs)
      else Inl InvalidArgumentError)"

definition add_scalar :: "int \<Rightarrow> int \<Rightarrow> int result" where
  "add_scalar a b = Inr (a + b)"

definition tensor_add3 ::
  "int list list list \<Rightarrow> int list list list \<Rightarrow> int list list list result" where
  "tensor_add3 = broadcast (broadcast (broadcast add_scalar))"

section \<open>The orchestrator object\<close>

datatype pretrained_class = VGG | ResNetV2

definition PRETRAINED_MODULES :: "pretrained_class dict" where
  "PRETRAINED_MODULES =
     [(''vgg'', VGG), (''resnet'', ResNetV2), (''resnetv2'', ResNetV2)]"

text \<open>
  The collaborating modules are external. An instance is recorded as the constructor
  call that made it; what an instance computes is supplied by the environment below.
\<close>

datatype pretrained_module = PretrainedModule pretrained_class bool
datatype rpn_module = RPN nat bool
datatype roi_pool_module = ROIPoolingLayer bool
datatype rcnn_module = RCNN "nat option" bool

type_synonym box = "int \<times> int \<times> int \<times> int"

record config =
  ANCHOR_BASE_SIZE :: int
  ANCHOR_SCALES :: "real list"
  ANCHOR_RATIOS :: "real list"
  ANCHOR_STRIDE :: int
  PRETRAINED_TRAINABLE :: bool

text \<open>The collections of the graph that the loss computation reads and extends.\<close>

record graph =
  losses :: "real list"
  regularization_losses :: "real list"
  loss_summaries :: "(string \<times> real) list"

record env =
  generate_anchors_reference :: "int \<Rightarrow> real list \<Rightarrow> real list \<Rightarrow> box list"
  pretrained_call :: "pretrained_module \<Rightarrow> tensor \<Rightarrow> bool \<Rightarrow> tensor dict result"
  rpn_call :: "rpn_module \<Rightarrow> tensor \<Rightarrow> tensor \<Rightarrow> nat list \<Rightarrow> int list list \<Rightarrow> bool
                 \<Rightarrow> pval dict result"
  rpn_loss :: "rpn_module \<Rightarrow> pval \<Rightarrow> graph \<Rightarrow> (real dict \<times> graph) result"
  roi_pool_call :: "roi_pool_module \<Rightarrow> pval \<Rightarrow> tensor \<Rightarrow> nat list \<Rightarrow> pval dict result"
  rcnn_call :: "rcnn_module \<Rightarrow> pval \<Rightarrow> pval \<Rightarrow> tensor \<Rightarrow> nat list \<Rightarrow> pval dict result"
  rcnn_loss :: "rcnn_module \<Rightarrow> pval \<Rightarrow> graph \<Rightarrow> (real dict \<times> graph) result"

record FasterRCNN =
  cfg :: config
  num_classes :: "nat option"
  with_rcnn :: bool
  debug :: bool
  anchor_base_size :: int
  anchor_scales :: "real list"
  anchor_ratios :: "real list"
  anchor_stride :: int
  anchor_reference :: "box list"
  num_anchors :: nat
  rpn_cls_loss_weight :: real
  rpn_reg_loss_weight :: real
  rcnn_cls_loss_weight :: real
  rcnn_reg_loss_weight :: real
  pretrained_class :: pretrained_class
  pretrained :: pretrained_module
  rpn :: rpn_module
  roi_pool :: "roi_pool_module option"
  rcnn :: "rcnn_module option"

text \<open>
  \<^verbatim>\<open>FasterRCNN.__init__\<close>. The attributes \<^verbatim>\<open>_roi_pool\<close> and \<^verbatim>\<open>_rcnn\<close> are only set
  when the classification head is enabled.
\<close>

definition init ::
  "env \<Rightarrow> config \<Rightarrow> bool \<Rightarrow> bool \<Rightarrow> nat option \<Rightarrow> string \<Rightarrow> FasterRCNN result" where
  "init e config dbg with_rcnn_flag n_classes pretrained_type =
     (let reference = generate_anchors_reference e
            (ANCHOR_BASE_SIZE config) (ANCHOR_RATIOS config) (ANCHOR_SCALES config)
      in case map_of PRETRAINED_MODULES pretrained_type of
           None \<Rightarrow> Inl (ValueError pretrained_type)
         | Some cls \<Rightarrow>
             Inr \<lparr> cfg = config,
                   num_classes = n_classes,
                   with_rcnn = with_rcnn_flag,
                   debug = dbg,
                   anchor_base_size = ANCHOR_BASE_SIZE config,
                   anchor_scales = ANCHOR_SCALES config,
                   anchor_ratios = ANCHOR_RATIOS config,
                   anchor_stride = ANCHOR_STRIDE config,
                   anchor_reference = reference,
                   num_anchors = length reference,
                   rpn_cls_loss_weight = 1.0,
                   rpn_reg_loss_weight = 2.0,
                   rcnn_cls_loss_weight = 1.0,
                   rcnn_reg_loss_weight = 2.0,
                   pretrained_class = cls,
                   pretrained = PretrainedModule cls (PRETRAINED_TRAINABLE config),
                   rpn = RPN (length reference) dbg,
                   roi_pool = (if with_rcnn_flag then Some (ROIPoolingLayer dbg) else None),
                   rcnn = (if with_rcnn_flag then Some (RCNN n_classes dbg) else None) \<rparr>)"

section \<open>Anchor grid generation\<close>

text \<open>
  Lines 178 to 190 of \<^verbatim>\<open>_generate_anchors\<close>: the \<open>(H x W, 4)\<close> tensor of shifts.
\<close>

definition grid_shifts :: "int \<Rightarrow> nat \<Rightarrow> nat \<Rightarrow> int list list" where
  "grid_shifts stride grid_height grid_width =
     (let shift_x = times_scalar (tf_range grid_width) stride;
          shift_y = times_scalar (tf_range grid_height) stride;
          (shift_x, shift_y) = meshgrid shift_x shift_y;
          shift_x = reshape_flat shift_x;
          shift_y = reshape_flat shift_y;
          shifts = tf_stack [shift_x, shift_y, shift_x, shift_y];
          shifts = tf_transpose shifts
      in shifts)"

definition box_row :: "box \<Rightarrow> int list" where
  "box_row b = (case b of (x1, y1, x2, y2) \<Rightarrow> [x1, y1, x2, y2])"

text \<open>
  \<^verbatim>\<open>FasterRCNN._generate_anchors\<close>. \<^verbatim>\<open>tf.shape(feature_map)[1:3]\<close> is a slice, so it
  is shorter than two entries for a feature map of rank below 3, and indexing it then
  fails.
\<close>

definition generate_anchors :: "FasterRCNN \<Rightarrow> tensor \<Rightarrow> int list list result" where
  "generate_anchors self feature_map =
     (let feature_map_shape = take 2 (drop 1 (tshape feature_map)) in
      if length feature_map_shape < 2 then Inl InvalidArgumentError
      else
        let grid_width = feature_map_shape ! 1;
            grid_height = feature_map_shape ! 0;
            shifts = grid_shifts (anchor_stride self) grid_height grid_width;
            num_anchors = length (anchor_reference self);
            num_anchor_points = length shifts
        in case tensor_add3
                  [map box_row (anchor_reference self)]
                  (tf_transpose [shifts])
           of Inl e \<Rightarrow> Inl e
            | Inr all_anchors \<Rightarrow>
                reshape2 (num_anchors * num_anchor_points) 4 (concat (concat all_anchors)))"

section \<open>The forward pass\<close>

text \<open>
  \<^verbatim>\<open>FasterRCNN._build\<close>. A collaborator that fails ends the forward pass with its
  error. The call to \<^verbatim>\<open>variable_summaries\<close> only logs and is left out, and so are the
  variable scopes, which only name graph nodes.
\<close>

definition build :: "env \<Rightarrow> FasterRCNN \<Rightarrow> tensor \<Rightarrow> tensor \<Rightarrow> bool \<Rightarrow> pval dict result" where
  "build e self img gt_boxes is_training =
     (let image_shape = take 2 (drop 1 (tshape img)) in
      case pretrained_call e (pretrained self) img is_training of
        Inl err \<Rightarrow> Inl err
      | Inr pretrained_dict \<Rightarrow>
      (case getitem pretrained_dict ''net'' of
        Inl err \<Rightarrow> Inl err
      | Inr pretrained_feature_map \<Rightarrow>
      (case generate_anchors self pretrained_feature_map of
        Inl err \<Rightarrow> Inl err
      | Inr all_anchors \<Rightarrow>
      (case rpn_call e (rpn self) pretrained_feature_map gt_boxes image_shape all_anchors
              is_training of
        Inl err \<Rightarrow> Inl err
      | Inr rpn_prediction \<Rightarrow>
        let prediction_dict = [(''rpn_prediction'', DictV rpn_prediction)];
            prediction_dict =
              (if debug self then
                 setitem (setitem (setitem (setitem (setitem prediction_dict
                   ''image'' (TensorV img))
                   ''image_shape'' (ShapeV image_shape))
                   ''all_anchors'' (AnchorsV all_anchors))
                   ''gt_boxes'' (TensorV gt_boxes))
                   ''pretrained_dict''
                     (DictV (map (\<lambda>(k, t). (k, TensorV t)) pretrained_dict))
               else prediction_dict)
        in
        if with_rcnn self then
          (case roi_pool self of
             None \<Rightarrow> Inl (AttributeError ''_roi_pool'')
           | Some roi_pool_layer \<Rightarrow>
          (case getitem rpn_prediction ''proposals'' of
             Inl err \<Rightarrow> Inl err
           | Inr proposals \<Rightarrow>
          (case roi_pool_call e roi_pool_layer proposals pretrained_feature_map image_shape of
             Inl err \<Rightarrow> Inl err
           | Inr roi_prediction \<Rightarrow>
          (case rcnn self of
             None \<Rightarrow> Inl (AttributeError ''_rcnn'')
           | Some rcnn_layer \<Rightarrow>
          (case getitem roi_prediction ''roi_pool'' of
             Inl err \<Rightarrow> Inl err
           | Inr pooled \<Rightarrow>
          (case rcnn_call e rcnn_layer pooled proposals gt_boxes image_shape of
             Inl err \<Rightarrow> Inl err
           | Inr classification_prediction \<Rightarrow>
             let prediction_dict =
                   setitem prediction_dict ''classification_prediction''
                     (DictV classification_prediction);
                 prediction_dict =
                   (if debug self
                    then setitem prediction_dict ''roi_prediction'' (DictV roi_prediction)
                    else prediction_dict)
             in Inr prediction_dict))))))
        else Inr prediction_dict))))"

section \<open>The loss\<close>

text \<open>
  The loop of \<^verbatim>\<open>loss\<close>: every named term is logged in the \<^verbatim>\<open>Losses\<close> summaries and
  added to the losses collection.
\<close>

fun add_losses :: "real dict \<Rightarrow> graph \<Rightarrow> graph" where
  "add_losses [] g = g"
| "add_losses ((loss_name, loss_tensor) # rest) g =
     add_losses rest
       (g\<lparr> loss_summaries := loss_summaries g @ [(loss_name, loss_tensor)],
           losses := losses g @ [loss_tensor] \<rparr>)"





section \<open>Notions of the specification\<close>


text \<open>
  The five assignments that \<^verbatim>\<open>_build\<close> makes in debug mode (lines 103 to 107), as one
  update of a bundle.
\<close>

definition debug_entries ::
  "tensor \<Rightarrow> tensor \<Rightarrow> int list list \<Rightarrow> tensor dict \<Rightarrow> pval dict \<Rightarrow> pval dict" where
  "debug_entries img gt_boxes all_anchors pretrained_dict d =
     setitem (setitem (setitem (setitem (setitem d
       ''image'' (TensorV img))
       ''image_shape'' (ShapeV (take 2 (drop 1 (tshape img)))))
       ''all_anchors'' (AnchorsV all_anchors))
       ''gt_boxes'' (TensorV gt_boxes))
       ''pretrained_dict'' (DictV (map (\<lambda>(k, t). (k, TensorV t)) pretrained_dict))"

section \<open>A worked configuration\<close>

text \<open>
  The second end-to-end scenario of the specification: a feature map of spatial shape
  \<open>(2, 3)\<close> and stride 16. The three reference anchors are those of base size 16, scale 8
  and ratios 0.5, 1 and 2. The collaborators are stubs; every loss term they report is 1,
  as in the loss scenario of the specification.
\<close>

definition example_reference :: "box list" where
  "example_reference = [(- 84, - 40, 99, 55), (- 56, - 56, 71, 71), (- 36, - 80, 51, 95)]"

definition example_feature_map :: tensor where
  "example_feature_map = Tensor [1, 2, 3, 8] (replicate 48 0)"

definition example_image :: tensor where
  "example_image = Tensor [1, 32, 48, 3] (replicate 4608 0)"

definition example_gt_boxes :: tensor where
  "example_gt_boxes = Tensor [1, 4] [4, 4, 20, 20]"

definition example_env :: env where
  "example_env =
     \<lparr> generate_anchors_reference = (\<lambda>base_size ratios scales. example_reference),
       pretrained_call = (\<lambda>m t training. Inr [(''net'', example_feature_map)]),
       rpn_call = (\<lambda>m fm gt shape anchors training.
          Inr [(''proposals'', TensorV (Tensor [1, 4] [0, 0, 16, 16]))]),
       rpn_loss = (\<lambda>m p g. Inr ([(''rpn_cls_loss'', 1), (''rpn_reg_loss'', 1)], g)),
       roi_pool_call = (\<lambda>m p fm shape.
          Inr [(''roi_pool'', TensorV (Tensor [1, 1, 1, 8] (replicate 8 0)))]),
       rcnn_call = (\<lambda>m pooled p gt shape.
          Inr [(''cls_prob'', TensorV (Tensor [1, 2] [1 / 2, 1 / 2]))]),
       rcnn_loss = (\<lambda>m p g. Inr ([(''rcnn_cls_loss'', 1), (''rcnn_reg_loss'', 1)], g)) \<rparr>"

definition example_config :: config where
  "example_config =
     \<lparr> ANCHOR_BASE_SIZE = 16,
       ANCHOR_SCALES = [8],
       ANCHOR_RATIOS = [1 / 2, 1, 2],
       ANCHOR_STRIDE = 16,
       PRETRAINED_TRAINABLE = False \<rparr>"

text \<open>
  The object that \<^verbatim>\<open>FasterRCNN(config, num_classes=20)\<close> constructs, and the one of
  \<^verbatim>\<open>FasterRCNN(config, debug=True, with_rcnn=False, pretrained_type='resnet')\<close>.
\<close>

definition example_model :: FasterRCNN where
  "example_model =
     \<lparr> cfg = example_config,
       num_classes = Some 20,
       with_rcnn = True,
       debug = False,
       anchor_base_size = 16,
       anchor_scales = [8],
       anchor_ratios = [1 / 2, 1, 2],
       anchor_stride = 16,
       anchor_reference = example_reference,
       num_anchors = 3,
       rpn_cls_loss_weight = 1,
       rpn_reg_loss_weight = 2,
       rcnn_cls_loss_weight = 1,
       rcnn_reg_loss_weight = 2,
       pretrained_class = VGG,
       pretrained = PretrainedModule VGG False,
       rpn = RPN 3 False,
       roi_pool = Some (ROIPoolingLayer False),
       rcnn = Some (RCNN (Some 20) False) \<rparr>"

definition example_rpn_only :: FasterRCNN where
  "example_rpn_only =
     \<lparr> cfg = example_config,
       num_classes = None,
       with_rcnn = False,
       debug = True,
       anchor_base_size = 16,
       anchor_scales = [8],
       anchor_ratios = [1 / 2, 1, 2],
       anchor_stride = 16,
       anchor_reference = example_reference,
       num_anchors = 3,
       rpn_cls_loss_weight = 1,
       rpn_reg_loss_weight = 2,
       rcnn_cls_loss_weight = 1,
       rcnn_reg_loss_weight = 2,
       pretrained_class = ResNetV2,
       pretrained = PretrainedModule ResNetV2 False,
       rpn = RPN 3 True,
       roi_pool = None,
       rcnn = None \<rparr>"


definition example_bundle :: "pval dict" where
  "example_bundle =
     [(''rpn_prediction'', DictV [(''proposals'', TensorV (Tensor [1, 4] [0, 0, 16, 16]))]),
      (''classification_prediction'',
         DictV [(''cls_prob'', TensorV (Tensor [1, 2] [1 / 2, 1 / 2]))])]"

section \<open>Properties of the tensor operations\<close>

lemma collect_map_Inr:
  "(\<And>x. x \<in> set xs \<Longrightarrow> f x = Inr (g x)) \<Longrightarrow> collect (map f xs) = Inr (map g xs)"
  by (induction xs) simp_all

lemma broadcast_left_one: "broadcast f [x] ys = collect (map (f x) ys)"
proof (cases "length ys = 1")
  case True
  then obtain y where "ys = [y]" by (cases ys) auto
  then show ?thesis by (simp add: broadcast_def)
next
  case False
  then show ?thesis by (auto simp add: broadcast_def)
qed

lemma broadcast_right_one: "broadcast f xs [y] = collect (map (\<lambda>x. f x y) xs)"
proof (cases "length xs = 1")
  case True
  then obtain x where "xs = [x]" by (cases xs) auto
  then show ?thesis by (simp add: broadcast_def)
next
  case False
  then show ?thesis by (auto simp add: broadcast_def)
qed

lemma broadcast_rows:
  assumes "length r = length s"
  shows "broadcast add_scalar r s = Inr (map (\<lambda>(a, b). a + b) (zip r s))"
proof -
  have "collect (map (\<lambda>(x, y). add_scalar x y) (zip r s)) = Inr (map (\<lambda>(a, b). a + b) (zip r s))"
    by (rule collect_map_Inr) (auto simp add: add_scalar_def)
  with assms show ?thesis by (simp add: broadcast_def)
qed

lemma tensor_add3_grid:
  assumes rows: "\<And>r. r \<in> set rows \<Longrightarrow> length r = 4"
      and shs: "\<And>s. s \<in> set shifts \<Longrightarrow> length s = 4"
  shows "tensor_add3 [rows] (map (\<lambda>s. [s]) shifts) =
         Inr (map (\<lambda>s. map (\<lambda>r. map (\<lambda>(a, b). a + b) (zip r s)) rows) shifts)"
proof -
  have inner: "broadcast (broadcast add_scalar) rows [s] =
        Inr (map (\<lambda>r. map (\<lambda>(a, b). a + b) (zip r s)) rows)" if "s \<in> set shifts" for s
    unfolding broadcast_right_one
    by (rule collect_map_Inr) (simp add: broadcast_rows rows shs that)
  have "collect (map (broadcast (broadcast add_scalar) rows) (map (\<lambda>s. [s]) shifts)) =
        Inr (map (\<lambda>s. map (\<lambda>r. map (\<lambda>(a, b). a + b) (zip r s)) rows) shifts)"
    unfolding map_map comp_def
    by (rule collect_map_Inr) (simp add: inner)
  then show ?thesis
    by (simp add: tensor_add3_def broadcast_left_one)
qed

lemma transpose_singleton: "transpose [xs] = map (\<lambda>x. [x]) xs"
  by (induction xs) simp_all

lemma transpose_quad:
  "length a = length b \<Longrightarrow> transpose [a, b, a, b] = map (\<lambda>(x, y). [x, y, x, y]) (zip a b)"
  by (induction a b rule: list_induct2) simp_all

lemma zip_meshgrid:
  "zip (concat (map (\<lambda>_. xs) ys)) (concat (map (\<lambda>v. map (\<lambda>_. v) xs) ys)) =
   concat (map (\<lambda>v. map (\<lambda>x. (x, v)) xs) ys)"
  by (induction ys) (simp_all add: zip_map2 zip_same_conv_map)

lemma length_meshgrid_x: "length (concat (map (\<lambda>_. xs) (ys::'b list))) = length ys * length xs"
  by (induction ys) simp_all

lemma length_meshgrid_y: "length (concat (map (\<lambda>v. map (\<lambda>_. v) xs) ys)) = length ys * length xs"
  by (induction ys) simp_all

lemma rows_of_concat:
  "(\<And>r. r \<in> set rs \<Longrightarrow> length r = k) \<Longrightarrow> i < length rs \<Longrightarrow>
   take k (drop (i * k) (concat rs)) = rs ! i"
proof (induction rs arbitrary: i)
  case Nil
  then show ?case by simp
next
  case (Cons r rs)
  show ?case
  proof (cases i)
    case 0
    with Cons.prems show ?thesis by simp
  next
    case (Suc j)
    with Cons show ?thesis by simp
  qed
qed

lemma length_concat_rows:
  "(\<And>r. r \<in> set rs \<Longrightarrow> length r = k) \<Longrightarrow> length (concat rs) = length rs * k"
  by (induction rs) simp_all



lemma reshape2_concat:
  assumes "\<And>r. r \<in> set rs \<Longrightarrow> length r = k" and "n = length rs"
  shows "reshape2 n k (concat rs) = Inr rs"
proof -
  have "map (\<lambda>i. take k (drop (i * k) (concat rs))) [0..<length rs] = rs"
    by (rule nth_equalityI) (simp_all add: rows_of_concat assms(1))
  with assms show ?thesis
    by (simp add: reshape2_def length_concat_rows)
qed

section \<open>The shifts and the anchor grid in closed form\<close>

text \<open>
  The shifts enumerate the grid row by row: the cell in row \<open>j\<close> and column \<open>i\<close> is
  shifted by \<open>i\<close> strides in x and \<open>j\<close> strides in y.
\<close>

lemma grid_shifts_eq:
  "grid_shifts S H W =
   concat (map (\<lambda>j. map (\<lambda>i. [int i * S, int j * S, int i * S, int j * S]) [0..<W]) [0..<H])"
  by (simp add: grid_shifts_def tf_range_def times_scalar_def meshgrid_def reshape_flat_def
      tf_stack_def tf_transpose_def transpose_quad length_meshgrid_x length_meshgrid_y
      zip_meshgrid map_concat comp_def)

lemma length_box_row: "length (box_row r) = 4"
  by (cases r) (simp add: box_row_def)

lemma length_grid_shift: "s \<in> set (grid_shifts S H W) \<Longrightarrow> length s = 4"
  by (auto simp add: grid_shifts_eq)








text \<open>
  For a feature map of rank at least 3 the anchor computation never fails, and its result
  lists, shift after shift, every reference anchor with that shift added.
\<close>

lemma generate_anchors_eq:
  assumes "tshape feature_map = n # H # W # rest"
  shows "generate_anchors self feature_map =
         Inr (concat (map (\<lambda>s. map (\<lambda>r. map (\<lambda>(a, b). a + b) (zip (box_row r) s))
                                   (anchor_reference self))
                          (grid_shifts (anchor_stride self) H W)))"
proof -
  let ?shifts = "grid_shifts (anchor_stride self) H W"
  let ?t = "map (\<lambda>s. map (\<lambda>r. map (\<lambda>(a, b). a + b) (zip r s))
                 (map box_row (anchor_reference self))) ?shifts"
  have add: "tensor_add3 [map box_row (anchor_reference self)] (tf_transpose [?shifts]) = Inr ?t"
    unfolding tf_transpose_def transpose_singleton
    by (rule tensor_add3_grid) (auto simp add: length_box_row length_grid_shift)
  have rows: "\<And>r. r \<in> set (concat ?t) \<Longrightarrow> length r = 4"
    by (auto simp add: length_box_row length_grid_shift)
  have "length (concat ?t) = length ?t * length (anchor_reference self)"
    by (rule length_concat_rows) auto
  then have len: "length (anchor_reference self) * length ?shifts = length (concat ?t)"
    by simp
  have "reshape2 (length (anchor_reference self) * length ?shifts) 4 (concat (concat ?t)) = Inr (concat ?t)"
    using rows len by (rule reshape2_concat)
  then show ?thesis
    using assms add by (simp add: generate_anchors_def Let_def map_concat comp_def)
qed




section \<open>Properties of dictionaries, the forward pass and the loss\<close>

lemma getitem_setitem:
  "getitem (setitem d k v) k' = (if k' = k then Inr v else getitem d k')"
  by (simp add: getitem_def setitem_def update_conv')

lemma keys_setitem: "keys (setitem d k v) = insert k (keys d)"
  by (simp add: keys_def setitem_def dom_update)

lemma keys_singleton: "keys [(k, v)] = {k}"
  by (simp add: keys_def)

lemma getitem_singleton: "getitem [(k, v)] k' = (if k' = k then Inr v else Inl (KeyError k'))"
  by (simp add: getitem_def)

lemma keys_debug_entries:
  "keys (debug_entries img gt_boxes all_anchors pretrained_dict d) =
   {''image'', ''image_shape'', ''all_anchors'', ''gt_boxes'', ''pretrained_dict''} \<union> keys d"
  by (auto simp add: debug_entries_def keys_setitem)

lemma getitem_debug_entries:
  "getitem (debug_entries img gt_boxes all_anchors pretrained_dict d) k =
     (if k = ''pretrained_dict''
        then Inr (DictV (map (\<lambda>(k, t). (k, TensorV t)) pretrained_dict))
      else if k = ''gt_boxes'' then Inr (TensorV gt_boxes)
      else if k = ''all_anchors'' then Inr (AnchorsV all_anchors)
      else if k = ''image_shape'' then Inr (ShapeV (take 2 (drop 1 (tshape img))))
      else if k = ''image'' then Inr (TensorV img)
      else getitem d k)"
  by (simp add: debug_entries_def getitem_setitem)



lemma add_losses_summaries: "loss_summaries (add_losses d g) = loss_summaries g @ d"
  by (induction d g rule: add_losses.induct) simp_all

lemma map_of_PRETRAINED_MODULES:
  "map_of PRETRAINED_MODULES t =
     (if t = ''vgg'' then Some VGG
      else if t = ''resnet'' \<or> t = ''resnetv2'' then Some ResNetV2 else None)"
  by (simp add: PRETRAINED_MODULES_def)


text \<open>What a successful forward pass must have gone through.\<close>

lemma build_InrE:
  assumes "build e self img gt_boxes is_training = Inr pd"
  obtains pretrained_dict feature_map all_anchors rpn_prediction pd1 where
    "pretrained_call e (pretrained self) img is_training = Inr pretrained_dict"
    "getitem pretrained_dict ''net'' = Inr feature_map"
    "generate_anchors self feature_map = Inr all_anchors"
    "rpn_call e (rpn self) feature_map gt_boxes (take 2 (drop 1 (tshape img))) all_anchors
       is_training = Inr rpn_prediction"
    "pd1 = (if debug self
            then debug_entries img gt_boxes all_anchors pretrained_dict
                   [(''rpn_prediction'', DictV rpn_prediction)]
            else [(''rpn_prediction'', DictV rpn_prediction)])"
    "\<not> with_rcnn self \<longrightarrow> pd = pd1"
    "with_rcnn self \<longrightarrow>
       (\<exists>layer proposals roi_prediction head pooled classification_prediction.
         roi_pool self = Some layer \<and>
         getitem rpn_prediction ''proposals'' = Inr proposals \<and>
         roi_pool_call e layer proposals feature_map (take 2 (drop 1 (tshape img))) =
           Inr roi_prediction \<and>
         rcnn self = Some head \<and>
         getitem roi_prediction ''roi_pool'' = Inr pooled \<and>
         rcnn_call e head pooled proposals gt_boxes (take 2 (drop 1 (tshape img))) =
           Inr classification_prediction \<and>
         pd = (if debug self
               then setitem (setitem pd1 ''classification_prediction''
                               (DictV classification_prediction))
                      ''roi_prediction'' (DictV roi_prediction)
               else setitem pd1 ''classification_prediction''
                      (DictV classification_prediction)))"
  using assms
  unfolding build_def debug_entries_def Let_def
  by (auto split: sum.splits option.splits if_splits)

lemma build_keys:
  assumes "build e self img gt_boxes is_training = Inr pd"
  shows "keys pd = {''rpn_prediction''} \<union>
      (if debug self
       then {''image'', ''image_shape'', ''all_anchors'', ''gt_boxes'', ''pretrained_dict''}
       else {}) \<union>
      (if with_rcnn self
       then (if debug self then {''classification_prediction'', ''roi_prediction''}
             else {''classification_prediction''})
       else {})"
proof -
  from assms obtain pretrained_dict feature_map all_anchors rpn_prediction pd1 where
    pd1: "pd1 = (if debug self
            then debug_entries img gt_boxes all_anchors pretrained_dict
                   [(''rpn_prediction'', DictV rpn_prediction)]
            else [(''rpn_prediction'', DictV rpn_prediction)])" and
    off: "\<not> with_rcnn self \<longrightarrow> pd = pd1" and
    on: "with_rcnn self \<longrightarrow>
       (\<exists>layer proposals roi_prediction head pooled classification_prediction.
         roi_pool self = Some layer \<and>
         getitem rpn_prediction ''proposals'' = Inr proposals \<and>
         roi_pool_call e layer proposals feature_map (take 2 (drop 1 (tshape img))) =
           Inr roi_prediction \<and>
         rcnn self = Some head \<and>
         getitem roi_prediction ''roi_pool'' = Inr pooled \<and>
         rcnn_call e head pooled proposals gt_boxes (take 2 (drop 1 (tshape img))) =
           Inr classification_prediction \<and>
         pd = (if debug self
               then setitem (setitem pd1 ''classification_prediction''
                               (DictV classification_prediction))
                      ''roi_prediction'' (DictV roi_prediction)
               else setitem pd1 ''classification_prediction''
                      (DictV classification_prediction)))"
    by (rule build_InrE)
  have k1: "keys pd1 = {''rpn_prediction''} \<union>
      (if debug self
       then {''image'', ''image_shape'', ''all_anchors'', ''gt_boxes'', ''pretrained_dict''}
       else {})"
    by (auto simp add: pd1 keys_debug_entries keys_singleton)
  have "keys pd = keys pd1 \<union>
      (if with_rcnn self
       then (if debug self then {''classification_prediction'', ''roi_prediction''}
             else {''classification_prediction''})
       else {})"
  proof (cases "with_rcnn self")
    case False
    with off show ?thesis by simp
  next
    case True
    with on show ?thesis by (auto simp add: keys_setitem)
  qed
  with k1 show ?thesis by simp
qed




section \<open>Anchor grid generation: verified properties\<close>









section \<open>Construction: verified properties\<close>

text \<open>
  C5. Constructing the orchestrator fails, with a \<^verbatim>\<open>ValueError\<close>, if and only if the
  requested backbone type is not one of \<^verbatim>\<open>vgg\<close>, \<^verbatim>\<open>resnet\<close> and \<^verbatim>\<open>resnetv2\<close>; otherwise
  it yields an object. The check is part of construction: the forward pass is a method of
  the constructed object, so with an invalid identifier there is no object to run it on.
\<close>

theorem init_rejects_unknown_backbone:
  "(init e config dbg head classes pretrained_type = Inl (ValueError pretrained_type)) =
     (pretrained_type \<notin> {''vgg'', ''resnet'', ''resnetv2''}) \<and>
   (\<exists>err. init e config dbg head classes pretrained_type = Inl err) =
     (pretrained_type \<notin> {''vgg'', ''resnet'', ''resnetv2''}) \<and>
   (\<exists>self. init e config dbg head classes pretrained_type = Inr self) =
     (pretrained_type \<in> {''vgg'', ''resnet'', ''resnetv2''})"
  by (simp add: init_def Let_def map_of_PRETRAINED_MODULES)

theorem init_rejects_unknown_backbone_witness:
  "init example_env example_config False True (Some 20) ''alexnet'' =
     Inl (ValueError ''alexnet'') \<and>
   (\<exists>self. init example_env example_config False True (Some 20) ''resnetv2'' = Inr self)"
  using init_rejects_unknown_backbone
          [of example_env example_config False True "Some 20" "''alexnet''"]
        init_rejects_unknown_backbone
          [of example_env example_config False True "Some 20" "''resnetv2''"]
  by simp

text \<open>
  C10. The identifiers \<^verbatim>\<open>resnet\<close> and \<^verbatim>\<open>resnetv2\<close> both select the class \<^verbatim>\<open>ResNetV2\<close>:
  construction with either gives the same object. \<^verbatim>\<open>vgg\<close> selects \<^verbatim>\<open>VGG\<close>, and it is the
  only identifier whose class is not \<^verbatim>\<open>ResNetV2\<close>.
\<close>

theorem resnet_identifiers_share_backbone:
  "init e config dbg head classes ''resnet'' = init e config dbg head classes ''resnetv2'' \<and>
   (\<exists>self. init e config dbg head classes ''resnet'' = Inr self \<and>
      pretrained_class self = ResNetV2) \<and>
   (\<exists>self. init e config dbg head classes ''vgg'' = Inr self \<and>
      pretrained_class self = VGG) \<and>
   (\<forall>t self. init e config dbg head classes t = Inr self \<longrightarrow>
      (pretrained_class self \<noteq> ResNetV2) = (t = ''vgg''))"
  by (auto simp add: init_def Let_def map_of_PRETRAINED_MODULES split: if_splits)

theorem resnet_identifiers_share_backbone_witness:
  "init example_env example_config False True (Some 20) ''vgg'' = Inr example_model \<and>
   pretrained_class example_model \<noteq> ResNetV2 \<and>
   init example_env example_config True False None ''resnet'' = Inr example_rpn_only \<and>
   pretrained_class example_rpn_only = ResNetV2 \<and>
   init example_env example_config True False None ''resnetv2'' = Inr example_rpn_only"
proof -
  have first: "init example_env example_config False True (Some 20) ''vgg'' = Inr example_model"
    by (simp add: init_def PRETRAINED_MODULES_def example_env_def example_config_def
        example_model_def example_reference_def)
  have second: "init example_env example_config True False None ''resnet'' = Inr example_rpn_only"
    by (simp add: init_def PRETRAINED_MODULES_def example_env_def example_config_def
        example_rpn_only_def example_reference_def)
  from resnet_identifiers_share_backbone [of example_env example_config False True "Some 20"]
    first
  have "pretrained_class example_model \<noteq> ResNetV2" by blast
  moreover
  from resnet_identifiers_share_backbone [of example_env example_config True False None]
    second
  have "pretrained_class example_rpn_only = ResNetV2"
    "init example_env example_config True False None ''resnetv2'' = Inr example_rpn_only"
    by auto
  ultimately show ?thesis using first second by simp
qed

section \<open>The forward pass: verified properties\<close>

text \<open>
  C7. The prediction bundle that the forward pass returns always holds the RPN outputs
  under \<^verbatim>\<open>rpn_prediction\<close>. It holds the classification outputs exactly when the
  classification stage is enabled, and so ran. It holds the raw intermediates (image, image
  shape, full anchor grid, ground-truth boxes, backbone outputs) exactly in debug mode,
  and then they are the values the pass computed. It holds no other key, but for the ROI
  pooling outputs in debug mode with the classification stage enabled.
\<close>

theorem build_bundle_contents:
  assumes "build e self img gt_boxes is_training = Inr pd"
  shows "''rpn_prediction'' \<in> keys pd \<and>
         (''classification_prediction'' \<in> keys pd \<longleftrightarrow> with_rcnn self) \<and>
         (\<forall>k \<in> {''image'', ''image_shape'', ''all_anchors'', ''gt_boxes'', ''pretrained_dict''}.
            k \<in> keys pd \<longleftrightarrow> debug self) \<and>
         (''roi_prediction'' \<in> keys pd \<longleftrightarrow> debug self \<and> with_rcnn self) \<and>
         keys pd \<subseteq> {''rpn_prediction'', ''classification_prediction'', ''image'',
                     ''image_shape'', ''all_anchors'', ''gt_boxes'', ''pretrained_dict'',
                     ''roi_prediction''} \<and>
         (\<exists>pretrained_dict feature_map all_anchors rpn_prediction.
            pretrained_call e (pretrained self) img is_training = Inr pretrained_dict \<and>
            getitem pretrained_dict ''net'' = Inr feature_map \<and>
            generate_anchors self feature_map = Inr all_anchors \<and>
            rpn_call e (rpn self) feature_map gt_boxes (take 2 (drop 1 (tshape img)))
              all_anchors is_training = Inr rpn_prediction \<and>
            getitem pd ''rpn_prediction'' = Inr (DictV rpn_prediction) \<and>
            (debug self \<longrightarrow>
               getitem pd ''image'' = Inr (TensorV img) \<and>
               getitem pd ''image_shape'' = Inr (ShapeV (take 2 (drop 1 (tshape img)))) \<and>
               getitem pd ''all_anchors'' = Inr (AnchorsV all_anchors) \<and>
               getitem pd ''gt_boxes'' = Inr (TensorV gt_boxes) \<and>
               getitem pd ''pretrained_dict'' =
                 Inr (DictV (map (\<lambda>(k, t). (k, TensorV t)) pretrained_dict))) \<and>
            (with_rcnn self \<longrightarrow>
               (\<exists>layer proposals roi_prediction head pooled classification_prediction.
                  roi_pool self = Some layer \<and>
                  getitem rpn_prediction ''proposals'' = Inr proposals \<and>
                  roi_pool_call e layer proposals feature_map (take 2 (drop 1 (tshape img))) =
                    Inr roi_prediction \<and>
                  rcnn self = Some head \<and>
                  getitem roi_prediction ''roi_pool'' = Inr pooled \<and>
                  rcnn_call e head pooled proposals gt_boxes (take 2 (drop 1 (tshape img))) =
                    Inr classification_prediction \<and>
                  getitem pd ''classification_prediction'' =
                    Inr (DictV classification_prediction))))"
proof -
  from assms obtain pretrained_dict feature_map all_anchors rpn_prediction pd1 where
    calls: "pretrained_call e (pretrained self) img is_training = Inr pretrained_dict"
      "getitem pretrained_dict ''net'' = Inr feature_map"
      "generate_anchors self feature_map = Inr all_anchors"
      "rpn_call e (rpn self) feature_map gt_boxes (take 2 (drop 1 (tshape img))) all_anchors
         is_training = Inr rpn_prediction" and
    pd1: "pd1 = (if debug self
            then debug_entries img gt_boxes all_anchors pretrained_dict
                   [(''rpn_prediction'', DictV rpn_prediction)]
            else [(''rpn_prediction'', DictV rpn_prediction)])" and
    off: "\<not> with_rcnn self \<longrightarrow> pd = pd1" and
    on: "with_rcnn self \<longrightarrow>
       (\<exists>layer proposals roi_prediction head pooled classification_prediction.
         roi_pool self = Some layer \<and>
         getitem rpn_prediction ''proposals'' = Inr proposals \<and>
         roi_pool_call e layer proposals feature_map (take 2 (drop 1 (tshape img))) =
           Inr roi_prediction \<and>
         rcnn self = Some head \<and>
         getitem roi_prediction ''roi_pool'' = Inr pooled \<and>
         rcnn_call e head pooled proposals gt_boxes (take 2 (drop 1 (tshape img))) =
           Inr classification_prediction \<and>
         pd = (if debug self
               then setitem (setitem pd1 ''classification_prediction''
                               (DictV classification_prediction))
                      ''roi_prediction'' (DictV roi_prediction)
               else setitem pd1 ''classification_prediction''
                      (DictV classification_prediction)))"
    by (rule build_InrE)
  have v1: "getitem pd1 ''rpn_prediction'' = Inr (DictV rpn_prediction) \<and>
      (debug self \<longrightarrow>
         getitem pd1 ''image'' = Inr (TensorV img) \<and>
         getitem pd1 ''image_shape'' = Inr (ShapeV (take 2 (drop 1 (tshape img)))) \<and>
         getitem pd1 ''all_anchors'' = Inr (AnchorsV all_anchors) \<and>
         getitem pd1 ''gt_boxes'' = Inr (TensorV gt_boxes) \<and>
         getitem pd1 ''pretrained_dict'' =
           Inr (DictV (map (\<lambda>(k, t). (k, TensorV t)) pretrained_dict)))"
    by (simp add: pd1 getitem_debug_entries getitem_singleton)
  have same: "getitem pd k = getitem pd1 k"
    if "k \<noteq> ''classification_prediction''" "k \<noteq> ''roi_prediction''" for k
  proof (cases "with_rcnn self")
    case False
    with off show ?thesis by simp
  next
    case True
    with on that show ?thesis by (auto simp add: getitem_setitem)
  qed
  have stored: "getitem pd ''rpn_prediction'' = Inr (DictV rpn_prediction) \<and>
      (debug self \<longrightarrow>
         getitem pd ''image'' = Inr (TensorV img) \<and>
         getitem pd ''image_shape'' = Inr (ShapeV (take 2 (drop 1 (tshape img)))) \<and>
         getitem pd ''all_anchors'' = Inr (AnchorsV all_anchors) \<and>
         getitem pd ''gt_boxes'' = Inr (TensorV gt_boxes) \<and>
         getitem pd ''pretrained_dict'' =
           Inr (DictV (map (\<lambda>(k, t). (k, TensorV t)) pretrained_dict)))"
    using v1 by (simp add: same)
  from build_keys [OF assms] have present: "''rpn_prediction'' \<in> keys pd \<and>
         (''classification_prediction'' \<in> keys pd \<longleftrightarrow> with_rcnn self) \<and>
         (\<forall>k \<in> {''image'', ''image_shape'', ''all_anchors'', ''gt_boxes'', ''pretrained_dict''}.
            k \<in> keys pd \<longleftrightarrow> debug self) \<and>
         (''roi_prediction'' \<in> keys pd \<longleftrightarrow> debug self \<and> with_rcnn self) \<and>
         keys pd \<subseteq> {''rpn_prediction'', ''classification_prediction'', ''image'',
                     ''image_shape'', ''all_anchors'', ''gt_boxes'', ''pretrained_dict'',
                     ''roi_prediction''}"
    by (auto split: if_splits)
  have ran: "with_rcnn self \<longrightarrow>
      (\<exists>layer proposals roi_prediction head pooled classification_prediction.
         roi_pool self = Some layer \<and>
         getitem rpn_prediction ''proposals'' = Inr proposals \<and>
         roi_pool_call e layer proposals feature_map (take 2 (drop 1 (tshape img))) =
           Inr roi_prediction \<and>
         rcnn self = Some head \<and>
         getitem roi_prediction ''roi_pool'' = Inr pooled \<and>
         rcnn_call e head pooled proposals gt_boxes (take 2 (drop 1 (tshape img))) =
           Inr classification_prediction \<and>
         getitem pd ''classification_prediction'' = Inr (DictV classification_prediction))"
  proof
    assume "with_rcnn self"
    with on obtain layer proposals roi_prediction head pooled classification_prediction where
      stage: "roi_pool self = Some layer"
        "getitem rpn_prediction ''proposals'' = Inr proposals"
        "roi_pool_call e layer proposals feature_map (take 2 (drop 1 (tshape img))) =
           Inr roi_prediction"
        "rcnn self = Some head"
        "getitem roi_prediction ''roi_pool'' = Inr pooled"
        "rcnn_call e head pooled proposals gt_boxes (take 2 (drop 1 (tshape img))) =
           Inr classification_prediction" and
      pd: "pd = (if debug self
               then setitem (setitem pd1 ''classification_prediction''
                               (DictV classification_prediction))
                      ''roi_prediction'' (DictV roi_prediction)
               else setitem pd1 ''classification_prediction''
                      (DictV classification_prediction))"
      by blast
    from pd have "getitem pd ''classification_prediction'' = Inr (DictV classification_prediction)"
      by (simp add: getitem_setitem)
    with stage show "\<exists>layer proposals roi_prediction head pooled classification_prediction.
         roi_pool self = Some layer \<and>
         getitem rpn_prediction ''proposals'' = Inr proposals \<and>
         roi_pool_call e layer proposals feature_map (take 2 (drop 1 (tshape img))) =
           Inr roi_prediction \<and>
         rcnn self = Some head \<and>
         getitem roi_prediction ''roi_pool'' = Inr pooled \<and>
         rcnn_call e head pooled proposals gt_boxes (take 2 (drop 1 (tshape img))) =
           Inr classification_prediction \<and>
         getitem pd ''classification_prediction'' = Inr (DictV classification_prediction)"
      by blast
  qed
  from calls stored ran show ?thesis
    by (intro conjI exI [of _ pretrained_dict] exI [of _ feature_map] exI [of _ all_anchors]
        exI [of _ rpn_prediction]) (use present in \<open>simp_all\<close>)
qed

theorem build_bundle_contents_witness:
  "build example_env example_model example_image example_gt_boxes True = Inr example_bundle \<and>
   ''rpn_prediction'' \<in> keys example_bundle \<and>
   ''classification_prediction'' \<in> keys example_bundle \<and>
   ''image'' \<notin> keys example_bundle \<and>
   ''all_anchors'' \<notin> keys example_bundle"
proof -
  have shape: "tshape example_feature_map = 1 # 2 # 3 # [8]"
    by (simp add: example_feature_map_def)
  have run: "build example_env example_model example_image example_gt_boxes True =
      Inr example_bundle"
    by (simp add: build_def example_env_def example_model_def example_bundle_def getitem_def
        setitem_def generate_anchors_eq [OF shape])
  from build_bundle_contents [OF run] run show ?thesis
    by (simp add: example_model_def)
qed



section \<open>The loss: verified properties\<close>





end
